theory Spec2Isabelle
  imports Complex_Main "HOL-Library.Word"
begin

section \<open>JavaScript strings\<close>

text \<open>
  A JavaScript string is a sequence of UTF-16 code units. The fixed Japanese texts of the
  source lie in the Basic Multilingual Plane, so each of their characters is one code unit.
\<close>

type_synonym code_unit = "16 word"
type_synonym jsstring = "code_unit list"

text \<open>An ASCII literal of the source, written as an Isabelle string.\<close>

definition ascii :: "string \<Rightarrow> jsstring" where
  "ascii s = map of_char s"

text \<open>\<^verbatim>\<open>s.startsWith(p)\<close>\<close>

fun startsWith :: "jsstring \<Rightarrow> jsstring \<Rightarrow> bool" where
  "startsWith s [] = True"
| "startsWith [] (p # ps) = False"
| "startsWith (c # cs) (p # ps) = (c = p \<and> startsWith cs ps)"

text \<open>\<^verbatim>\<open>s.includes(p)\<close>: \<open>p\<close> occurs in \<open>s\<close> as a contiguous block.\<close>

fun includes_str :: "jsstring \<Rightarrow> jsstring \<Rightarrow> bool" where
  "includes_str [] p = startsWith [] p"
| "includes_str (c # cs) p = (startsWith (c # cs) p \<or> includes_str cs p)"

text \<open>
  \<^verbatim>\<open>s.trim()\<close> strips the white space and line terminators of ECMAScript from both
  ends: TAB, LF, VT, FF, CR, SP, NBSP, U+1680, U+2000 to U+200A, U+2028, U+2029, U+202F,
  U+205F, U+3000 and U+FEFF.
\<close>

definition isWhiteSpace :: "code_unit \<Rightarrow> bool" where
  "isWhiteSpace c = (c \<in> set [0x0009, 0x000A, 0x000B, 0x000C, 0x000D, 0x0020, 0x00A0,
     0x1680, 0x2000, 0x2001, 0x2002, 0x2003, 0x2004, 0x2005, 0x2006, 0x2007, 0x2008,
     0x2009, 0x200A, 0x2028, 0x2029, 0x202F, 0x205F, 0x3000, 0xFEFF])"

definition trim :: "jsstring \<Rightarrow> jsstring" where
  "trim s = rev (dropWhile isWhiteSpace (rev (dropWhile isWhiteSpace s)))"

text \<open>\<^verbatim>\<open>xs.slice(start)\<close> of an array: a negative start counts from the end.\<close>

definition slice_from :: "int \<Rightarrow> 'a list \<Rightarrow> 'a list" where
  "slice_from start xs =
     (let len = int (length xs);
          k = (if start < 0 then max (len + start) 0 else min start len)
      in drop (nat k) xs)"

text \<open>\<^verbatim>\<open>n.toString()\<close> of a non-negative integer: its decimal digits.\<close>

fun toString :: "nat \<Rightarrow> jsstring" where
  "toString n =
     (if n < 10 then [0x30 + of_nat n]
      else toString (n div 10) @ [0x30 + of_nat (n mod 10)])"

declare toString.simps [simp del]

section \<open>The data model (types.ts)\<close>

datatype Role = User | Model

text \<open>
  A grounding chunk of the model's response, as far as the code reads it: the optional
  \<open>web\<close> object with its optional \<open>uri\<close> and \<open>title\<close>.
\<close>

record Web =
  uri :: "jsstring option"
  title :: "jsstring option"

record GroundingChunk =
  web :: "Web option"

record GroundingMetadata =
  groundingChunks :: "GroundingChunk list option"

record Message =
  msg_id :: jsstring
  msg_role :: Role
  msg_text :: jsstring
  msg_images :: "jsstring list option"
  msg_groundingMetadata :: "GroundingMetadata option"
  msg_isThinking :: "bool option"

text \<open>The coordinates are only handed on to the model call, never computed with.\<close>

record UserLocation =
  latitude :: real
  longitude :: real

datatype AppStatus = IDLE | THINKING | ERROR

section \<open>The turn counter (App.tsx)\<close>

definition MAX_TURNS :: nat where
  "MAX_TURNS = 10"

definition welcome_text :: jsstring where
  "welcome_text = [
    0x3053, 0x3093, 0x306B, 0x3061, 0x306F, 0x3002, 0x0041, 0x0049, 0x7DCF, 0x5408, 0x75C5,
    0x9662, 0x306E, 0x7DCF, 0x5408, 0x8A3A, 0x7642, 0x79D1, 0x3078, 0x3088, 0x3046, 0x3053,
    0x305D, 0x3002, 0x000A, 0x672C, 0x65E5, 0x306F, 0x3069, 0x306E, 0x3088, 0x3046, 0x306A,
    0x75C7, 0x72B6, 0x3067, 0x304A, 0x60A9, 0x307F, 0x3067, 0x3059, 0x304B, 0xFF1F, 0x000A,
    0x4F53, 0x8ABF, 0x3084, 0x6C17, 0x306B, 0x306A, 0x308B, 0x3053, 0x3068, 0x3001, 0x4F55,
    0x3067, 0x3082, 0x304A, 0x8A71, 0x3057, 0x304F, 0x3060, 0x3055, 0x3044, 0x3002, 0x000A,
    0x000A, 0x203B, 0x753B, 0x50CF, 0x3082, 0x0032, 0x679A, 0x307E, 0x3067, 0x62DD, 0x898B,
    0x3067, 0x304D, 0x307E, 0x3059, 0x3002]"

text \<open>The greeting that \<open>useState\<close> puts into the log when the session starts.\<close>

definition welcomeMessage :: Message where
  "welcomeMessage = \<lparr>msg_id = ascii ''welcome'', msg_role = Model, msg_text = welcome_text,
     msg_images = None, msg_groundingMetadata = None, msg_isThinking = None\<rparr>"

definition userMessageCount :: "Message list \<Rightarrow> nat" where
  "userMessageCount messages = length (filter (\<lambda>m. msg_role m = User) messages)"

definition isLimitReached :: "Message list \<Rightarrow> bool" where
  "isLimitReached messages = (userMessageCount messages \<ge> MAX_TURNS)"

section \<open>The model call (services/geminiService.ts)\<close>

text \<open>A thrown \<open>Error\<close> with its message.\<close>

datatype js_error = Error jsstring

text \<open>
  The request of \<open>ai.models.generateContent\<close>: a part is a text or an inline image
  (MIME type, data); a content block is a role with its parts. The system instruction is
  one constant string, the same in every request, and is left out of the request record.
\<close>

datatype Part = TextPart jsstring | InlineData jsstring jsstring

record Content =
  role :: Role
  parts :: "Part list"

datatype Tool = GoogleMaps

record GenerateContentParameters =
  model :: jsstring
  contents :: "Content list"
  tools :: "Tool list"
  toolConfig :: "UserLocation option"

record Candidate =
  cand_groundingMetadata :: "GroundingMetadata option"

record GenerateContentResponse =
  resp_text :: "jsstring option"
  candidates :: "Candidate list option"

record ChatResult =
  res_text :: jsstring
  res_groundingMetadata :: "GroundingMetadata option"

text \<open>
  What the service reads from outside: the credential \<open>process.env.API_KEY\<close> and the
  hosted model, a function of the client (its key) and the request that returns a response
  or throws.
\<close>

record Env =
  API_KEY :: "jsstring option"
  generateContent :: "jsstring \<Rightarrow> GenerateContentParameters \<Rightarrow> js_error + GenerateContentResponse"

definition getClient :: "Env \<Rightarrow> js_error + jsstring" where
  "getClient env =
     (case API_KEY env of
        None \<Rightarrow> Inl (Error (ascii ''API Key not found''))
      | Some apiKey \<Rightarrow>
          if apiKey = [] then Inl (Error (ascii ''API Key not found'')) else Inr apiKey)"

definition MAX_HISTORY_MESSAGES :: nat where
  "MAX_HISTORY_MESSAGES = 10"

text \<open>The class \<^verbatim>\<open>\w\<close> of a regular expression without flags: \<^verbatim>\<open>[A-Za-z0-9_]\<close>.\<close>

definition isWordChar :: "code_unit \<Rightarrow> bool" where
  "isWordChar c =
     ((0x41 \<le> c \<and> c \<le> 0x5A) \<or> (0x61 \<le> c \<and> c \<le> 0x7A) \<or> (0x30 \<le> c \<and> c \<le> 0x39) \<or> c = 0x5F)"

definition dropPrefix :: "jsstring \<Rightarrow> jsstring \<Rightarrow> jsstring option" where
  "dropPrefix p s = (if startsWith s p then Some (drop (length p) s) else None)"

text \<open>
  The match of \<^verbatim>\<open>/^data:(image\/\w+);base64,/\<close> at the start of \<open>img\<close>: the group
  \<^verbatim>\<open>image/\w+\<close> and the rest of the string behind the match. The greedy \<^verbatim>\<open>\w+\<close> takes
  the longest run of word characters, and no shorter run can match, since the character
  after a shorter run is a word character and not the semicolon.
  \<^verbatim>\<open>/^data:image\/\w+;base64,/\<close>, which \<open>replace\<close> uses, matches the same prefix.
\<close>

definition matchDataImage :: "jsstring \<Rightarrow> (jsstring \<times> jsstring) option" where
  "matchDataImage img =
     (case dropPrefix (ascii ''data:image/'') img of
        None \<Rightarrow> None
      | Some r \<Rightarrow>
          if takeWhile isWordChar r = [] then None
          else (case dropPrefix (ascii '';base64,'') (dropWhile isWordChar r) of
                  None \<Rightarrow> None
                | Some d \<Rightarrow> Some (ascii ''image/'' @ takeWhile isWordChar r, d)))"

text \<open>The inline block pushed for an image, over history and new images alike: \<open>base64Data\<close> and \<open>mimeType\<close>.\<close>

definition inlineData :: "jsstring \<Rightarrow> Part" where
  "inlineData img =
     (let base64Data = (case matchDataImage img of None \<Rightarrow> img | Some (g, d) \<Rightarrow> d);
          mimeType = (case matchDataImage img of None \<Rightarrow> ascii ''image/jpeg'' | Some (g, d) \<Rightarrow> g)
      in InlineData mimeType base64Data)"

text \<open>The callback of \<open>recentHistory.map\<close>; \<open>forEach\<close> with \<open>push\<close> is a left fold.\<close>

definition historyContent :: "Message list \<Rightarrow> nat \<Rightarrow> Message \<Rightarrow> Content" where
  "historyContent recentHistory index msg =
     (let isRecentWithImage = (int index \<ge> int (length recentHistory) - 2)
      in \<lparr>role = msg_role msg,
          parts =
            (case msg_images msg of
               None \<Rightarrow> [TextPart (msg_text msg)]
             | Some imgs \<Rightarrow>
                 if length imgs > 0 \<and> isRecentWithImage
                 then foldl (\<lambda>ps img. if startsWith img (ascii ''data:'') then ps @ [inlineData img] else ps)
                        [TextPart (msg_text msg)] imgs
                 else [TextPart (msg_text msg)])\<rparr>)"

definition currentParts :: "jsstring \<Rightarrow> jsstring list \<Rightarrow> Part list" where
  "currentParts newMessage images =
     foldl (\<lambda>ps img. ps @ [inlineData img]) [TextPart newMessage] images"

text \<open>The argument of \<open>generateContent\<close>, built from the arguments of \<open>chatWithDoctor\<close>.\<close>

definition request ::
  "Message list \<Rightarrow> jsstring \<Rightarrow> jsstring list option \<Rightarrow> UserLocation option \<Rightarrow> GenerateContentParameters" where
  "request history newMessage images_arg location =
     (let images = (case images_arg of None \<Rightarrow> [] | Some imgs \<Rightarrow> imgs);
          recentHistory = slice_from (- int MAX_HISTORY_MESSAGES) history;
          contents = map (\<lambda>(index, msg). historyContent recentHistory index msg)
                       (enumerate 0 recentHistory)
      in \<lparr>model = ascii ''gemini-2.5-flash'',
          contents = contents @ [\<lparr>role = User, parts = currentParts newMessage images\<rparr>],
          tools = [GoogleMaps],
          toolConfig = location\<rparr>)"

definition CLARIFICATION_TEXT :: jsstring where
  "CLARIFICATION_TEXT = [
    0x3059, 0x307F, 0x307E, 0x305B, 0x3093, 0x3001, 0x3046, 0x307E, 0x304F, 0x805E, 0x304D,
    0x53D6, 0x308C, 0x307E, 0x305B, 0x3093, 0x3067, 0x3057, 0x305F, 0x3002, 0x3082, 0x3046,
    0x4E00, 0x5EA6, 0x6559, 0x3048, 0x3066, 0x3044, 0x305F, 0x3060, 0x3051, 0x307E, 0x3059,
    0x304B, 0xFF1F]"

definition CHAT_ERROR_TEXT :: jsstring where
  "CHAT_ERROR_TEXT = [
    0x901A, 0x4FE1, 0x30A8, 0x30E9, 0x30FC, 0x304C, 0x767A, 0x751F, 0x3057, 0x307E, 0x3057,
    0x305F, 0x3002, 0x3082, 0x3046, 0x4E00, 0x5EA6, 0x304A, 0x8A66, 0x3057, 0x304F, 0x3060,
    0x3055, 0x3044, 0x3002]"

text \<open>\<^verbatim>\<open>response.candidates?.[0]?.groundingMetadata\<close>\<close>

definition firstGroundingMetadata :: "GenerateContentResponse \<Rightarrow> GroundingMetadata option" where
  "firstGroundingMetadata response =
     (case candidates response of
        None \<Rightarrow> None
      | Some [] \<Rightarrow> None
      | Some (c # cs) \<Rightarrow> cand_groundingMetadata c)"

text \<open>
  The body of the \<open>try\<close> after the call returned: \<^verbatim>\<open>response.text || ""\<close>, and the
  test \<^verbatim>\<open>!responseText && !groundingMetadata\<close> (an empty string is falsy, a metadata
  object is truthy).
\<close>

definition chatResult :: "GenerateContentResponse \<Rightarrow> ChatResult" where
  "chatResult response =
     (let responseText = (case resp_text response of None \<Rightarrow> [] | Some t \<Rightarrow> t);
          groundingMetadata = firstGroundingMetadata response
      in if responseText = [] \<and> groundingMetadata = None
         then \<lparr>res_text = CLARIFICATION_TEXT, res_groundingMetadata = None\<rparr>
         else \<lparr>res_text = responseText, res_groundingMetadata = groundingMetadata\<rparr>)"

text \<open>
  \<open>chatWithDoctor\<close> returns the requests it sent to the model together with its result:
  \<open>Inl\<close> is a throw. \<open>getClient\<close> is called outside the \<open>try\<close>, so its error leaves
  the function as it is and no request is sent; whatever \<open>generateContent\<close> throws is
  caught and thrown again as the fixed communication error.
\<close>

definition chatWithDoctor ::
  "Env \<Rightarrow> Message list \<Rightarrow> jsstring \<Rightarrow> jsstring list option \<Rightarrow> UserLocation option
     \<Rightarrow> GenerateContentParameters list \<times> (js_error + ChatResult)" where
  "chatWithDoctor env history newMessage images_arg location =
     (case getClient env of
        Inl e \<Rightarrow> ([], Inl e)
      | Inr ai \<Rightarrow>
          (let req = request history newMessage images_arg location
           in ([req],
               (case generateContent env ai req of
                  Inl error \<Rightarrow> Inl (Error CHAT_ERROR_TEXT)
                | Inr response \<Rightarrow> Inr (chatResult response)))))"

section \<open>The session (App.tsx)\<close>

record AppState =
  messages :: "Message list"
  inputText :: jsstring
  attachedImages :: "jsstring list"
  status :: AppStatus
  location :: "UserLocation option"

definition initialState :: AppState where
  "initialState = \<lparr>messages = [welcomeMessage], inputText = [], attachedImages = [],
     status = IDLE, location = None\<rparr>"

definition FALLBACK_TEXT :: jsstring where
  "FALLBACK_TEXT = [
    0x7533, 0x3057, 0x8A33, 0x3042, 0x308A, 0x307E, 0x305B, 0x3093, 0x3002, 0x901A, 0x4FE1,
    0x30A8, 0x30E9, 0x30FC, 0x304C, 0x767A, 0x751F, 0x3057, 0x307E, 0x3057, 0x305F, 0x3002,
    0x3082, 0x3046, 0x4E00, 0x5EA6, 0x304A, 0x8A66, 0x3057, 0x304F, 0x3060, 0x3055, 0x3044,
    0x3002]"

text \<open>The guard at the head of \<open>handleSendMessage\<close>: when it holds the handler returns.\<close>

definition rejects :: "AppState \<Rightarrow> bool" where
  "rejects s =
     ((trim (inputText s) = [] \<and> length (attachedImages s) = 0)
      \<or> status s = THINKING \<or> isLimitReached (messages s))"

definition userMsg :: "nat \<Rightarrow> AppState \<Rightarrow> Message" where
  "userMsg now s =
     \<lparr>msg_id = toString now, msg_role = User, msg_text = inputText s,
      msg_images = (if length (attachedImages s) > 0 then Some (attachedImages s) else None),
      msg_groundingMetadata = None, msg_isThinking = None\<rparr>"

definition botMsg :: "nat \<Rightarrow> ChatResult \<Rightarrow> Message" where
  "botMsg later response =
     \<lparr>msg_id = toString (later + 1), msg_role = Model, msg_text = res_text response,
      msg_images = None, msg_groundingMetadata = res_groundingMetadata response,
      msg_isThinking = None\<rparr>"

definition errorMsg :: "nat \<Rightarrow> Message" where
  "errorMsg later =
     \<lparr>msg_id = toString (later + 1), msg_role = Model, msg_text = FALLBACK_TEXT,
      msg_images = None, msg_groundingMetadata = None, msg_isThinking = None\<rparr>"

text \<open>
  One run of \<open>handleSendMessage\<close> on the state \<open>s\<close> of the render it was created in, with
  the two readings \<open>now\<close> and \<open>later\<close> of \<open>Date.now()\<close>. The outcome holds the requests
  sent to the model, the state committed before the \<open>await\<close> (none when the guard
  returns), and the state when the handler has finished. The state updates are functional
  (\<open>prev => [...prev, m]\<close>), so the second append works on the log that already holds
  the user's message; the history handed to \<open>chatWithDoctor\<close> is the \<open>messages\<close> of the
  render, the log before that append.
\<close>

record SendOutcome =
  calls :: "GenerateContentParameters list"
  pending :: "AppState option"
  settled :: AppState

definition handleSendMessage :: "Env \<Rightarrow> nat \<Rightarrow> nat \<Rightarrow> AppState \<Rightarrow> SendOutcome" where
  "handleSendMessage env now later s =
     (if rejects s then \<lparr>calls = [], pending = None, settled = s\<rparr>
      else
        (let s1 = s\<lparr>messages := messages s @ [userMsg now s], inputText := [],
                    attachedImages := [], status := THINKING\<rparr>;
             currentHistory = messages s;
             (sent, outcome) = chatWithDoctor env currentHistory (msg_text (userMsg now s))
                                 (msg_images (userMsg now s)) (location s);
             s2 = (case outcome of
                     Inr response \<Rightarrow> s1\<lparr>messages := messages s1 @ [botMsg later response]\<rparr>
                   | Inl error \<Rightarrow> s1\<lparr>messages := messages s1 @ [errorMsg later]\<rparr>)
         in \<lparr>calls = sent, pending = Some s1, settled = s2\<lparr>status := IDLE\<rparr>\<rparr>))"

section \<open>Grounding (App.tsx)\<close>

text \<open>
  The filter of \<open>renderGrounding\<close>:
  \<^verbatim>\<open>c.web?.uri && c.web.uri.includes('google.com/maps')\<close>; an absent or empty URI is falsy.
\<close>

definition isMapChunk :: "GroundingChunk \<Rightarrow> bool" where
  "isMapChunk c =
     (case web c of
        None \<Rightarrow> False
      | Some w \<Rightarrow>
          (case uri w of
             None \<Rightarrow> False
           | Some u \<Rightarrow> u \<noteq> [] \<and> includes_str u (ascii ''google.com/maps'')))"

definition mapChunks :: "GroundingChunk list \<Rightarrow> GroundingChunk list" where
  "mapChunks chunks = filter isMapChunk chunks"

text \<open>A rendered link: \<open>href\<close> and the title, \<^verbatim>\<open>chunk.web?.title || 'Google Maps'\<close>.\<close>

record MapLink =
  href :: "jsstring option"
  label :: jsstring

definition mapLink :: "GroundingChunk \<Rightarrow> MapLink" where
  "mapLink chunk =
     \<lparr>href = (case web chunk of None \<Rightarrow> None | Some w \<Rightarrow> uri w),
      label = (case web chunk of
                 None \<Rightarrow> ascii ''Google Maps''
               | Some w \<Rightarrow>
                   (case title w of
                      None \<Rightarrow> ascii ''Google Maps''
                    | Some t \<Rightarrow> if t = [] then ascii ''Google Maps'' else t))\<rparr>"

text \<open>\<open>renderGrounding\<close>: \<open>None\<close> is \<open>null\<close>, nothing is rendered.\<close>

definition renderGrounding :: "GroundingMetadata option \<Rightarrow> MapLink list option" where
  "renderGrounding metadata =
     (case metadata of
        None \<Rightarrow> None
      | Some md \<Rightarrow>
          (case groundingChunks md of
             None \<Rightarrow> None
           | Some chunks \<Rightarrow>
               if length (mapChunks chunks) = 0 then None
               else Some (map mapLink (mapChunks chunks))))"

section \<open>Sample sessions\<close>

text \<open>\<open>msg.images\<close> read as a list: an absent field holds no image.\<close>

definition imagesOf :: "Message \<Rightarrow> jsstring list" where
  "imagesOf msg = (case msg_images msg of None \<Rightarrow> [] | Some imgs \<Rightarrow> imgs)"

definition sampleUser :: "jsstring \<Rightarrow> jsstring list option \<Rightarrow> Message" where
  "sampleUser t imgs =
     \<lparr>msg_id = ascii ''u'', msg_role = User, msg_text = t, msg_images = imgs,
      msg_groundingMetadata = None, msg_isThinking = None\<rparr>"

definition sampleModel :: "jsstring \<Rightarrow> Message" where
  "sampleModel t =
     \<lparr>msg_id = ascii ''m'', msg_role = Model, msg_text = t, msg_images = None,
      msg_groundingMetadata = None, msg_isThinking = None\<rparr>"

definition pngImage :: jsstring where
  "pngImage = ascii ''data:image/png;base64,iVBORw0KGgo=''"

definition linkImage :: jsstring where
  "linkImage = ascii ''http://example.com/a.png''"

text \<open>A credential is set and the model answers; it is set and the call throws; it is empty.\<close>

definition sampleEnv :: Env where
  "sampleEnv = \<lparr>API_KEY = Some (ascii ''key''),
     generateContent = (\<lambda>ai req. Inr \<lparr>resp_text = Some (ascii ''ok''), candidates = None\<rparr>)\<rparr>"

definition offlineEnv :: Env where
  "offlineEnv = \<lparr>API_KEY = Some (ascii ''key''),
     generateContent = (\<lambda>ai req. Inl (Error (ascii ''Failed to fetch'')))\<rparr>"

definition noKeyEnv :: Env where
  "noKeyEnv = \<lparr>API_KEY = Some [],
     generateContent = (\<lambda>ai req. Inr \<lparr>resp_text = Some (ascii ''ok''), candidates = None\<rparr>)\<rparr>"


definition sampleMetadata :: GroundingMetadata where
  "sampleMetadata = \<lparr>groundingChunks = Some
     [\<lparr>web = Some \<lparr>uri = Some (ascii ''https://www.google.com/maps/place/clinic''),
                    title = Some (ascii ''Clinic'')\<rparr>\<rparr>]\<rparr>"

definition groundedEnv :: Env where
  "groundedEnv = \<lparr>API_KEY = Some (ascii ''key''),
     generateContent = (\<lambda>ai req. Inr \<lparr>resp_text = Some [],
        candidates = Some [\<lparr>cand_groundingMetadata = Some sampleMetadata\<rparr>]\<rparr>)\<rparr>"

text \<open>Ten user turns, each answered; text and an image are staged for an eleventh.\<close>

definition fullSession :: AppState where
  "fullSession = \<lparr>messages =
       [welcomeMessage,
        sampleUser (ascii ''q1'') None, sampleModel (ascii ''a1''),
        sampleUser (ascii ''q2'') None, sampleModel (ascii ''a2''),
        sampleUser (ascii ''q3'') None, sampleModel (ascii ''a3''),
        sampleUser (ascii ''q4'') None, sampleModel (ascii ''a4''),
        sampleUser (ascii ''q5'') None, sampleModel (ascii ''a5''),
        sampleUser (ascii ''q6'') None, sampleModel (ascii ''a6''),
        sampleUser (ascii ''q7'') None, sampleModel (ascii ''a7''),
        sampleUser (ascii ''q8'') None, sampleModel (ascii ''a8''),
        sampleUser (ascii ''q9'') None, sampleModel (ascii ''a9''),
        sampleUser (ascii ''q10'') None, sampleModel (ascii ''a10'')],
     inputText = ascii ''q11'', attachedImages = [pngImage], status = IDLE, location = None\<rparr>"

text \<open>Eleven messages in the log: the greeting and five answered turns.\<close>

definition elevenSession :: AppState where
  "elevenSession = \<lparr>messages =
       [welcomeMessage,
        sampleUser (ascii ''q1'') None, sampleModel (ascii ''a1''),
        sampleUser (ascii ''q2'') None, sampleModel (ascii ''a2''),
        sampleUser (ascii ''q3'') None, sampleModel (ascii ''a3''),
        sampleUser (ascii ''q4'') None, sampleModel (ascii ''a4''),
        sampleUser (ascii ''q5'') None, sampleModel (ascii ''a5'')],
     inputText = ascii ''q6'', attachedImages = [], status = IDLE, location = None\<rparr>"

text \<open>Three turns that carried an image each; two images staged and no text.\<close>

definition imageHistory :: "Message list" where
  "imageHistory =
     [sampleUser (ascii ''q1'') (Some [pngImage]),
      sampleUser (ascii ''q2'') (Some [pngImage, linkImage]),
      sampleUser (ascii ''q3'') (Some [pngImage])]"

definition imageSession :: AppState where
  "imageSession = \<lparr>messages = welcomeMessage # imageHistory,
     inputText = [], attachedImages = [pngImage, linkImage], status = IDLE, location = None\<rparr>"

section \<open>Facts about the string functions\<close>

text \<open>
  The functions on strings meet their descriptions: \<open>startsWith\<close> is the prefix test,
  \<open>includes_str\<close> finds a contiguous block, a string trims to the empty string exactly
  when it is all white space, and \<open>matchDataImage\<close> succeeds exactly on the strings of
  the form \<^verbatim>\<open>data:image/\<close>, a non-empty run of word characters, \<^verbatim>\<open>;base64,\<close> and a rest.
\<close>

lemma startsWith_iff: "startsWith s p = (\<exists>r. s = p @ r)"
  by (induction s p rule: startsWith.induct) auto

lemma dropPrefix_iff: "(dropPrefix p s = Some r) = (s = p @ r)"
  by (auto simp: dropPrefix_def startsWith_iff)

lemma includes_str_iff: "includes_str s p = (\<exists>a b. s = a @ p @ b)"
proof (induction s)
  case Nil
  then show ?case by (simp add: startsWith_iff)
next
  case (Cons c cs)
  show ?case
  proof
    assume "includes_str (c # cs) p"
    then consider "startsWith (c # cs) p" | "includes_str cs p" by auto
    then show "\<exists>a b. c # cs = a @ p @ b"
    proof cases
      case 1
      then obtain r where "c # cs = p @ r" by (auto simp: startsWith_iff)
      then have "c # cs = [] @ p @ r" by simp
      then show ?thesis by blast
    next
      case 2
      with Cons.IH obtain a b where "cs = a @ p @ b" by blast
      then have "c # cs = (c # a) @ p @ b" by simp
      then show ?thesis by blast
    qed
  next
    assume "\<exists>a b. c # cs = a @ p @ b"
    then obtain a b where split: "c # cs = a @ p @ b" by blast
    show "includes_str (c # cs) p"
    proof (cases a)
      case Nil
      with split have "startsWith (c # cs) p" unfolding startsWith_iff by auto
      then show ?thesis by simp
    next
      case (Cons x a')
      with split have "cs = a' @ p @ b" by simp
      with Cons.IH show ?thesis by auto
    qed
  qed
qed

lemma dropWhile_clean_iff: "(\<forall>c \<in> set (dropWhile P s). P c) = (\<forall>c \<in> set s. P c)"
proof
  assume clean: "\<forall>c \<in> set (dropWhile P s). P c"
  have "dropWhile P s = []"
  proof (rule ccontr)
    assume rest: "dropWhile P s \<noteq> []"
    then have "\<not> P (hd (dropWhile P s))" by (rule hd_dropWhile)
    moreover from rest have "hd (dropWhile P s) \<in> set (dropWhile P s)" by (rule hd_in_set)
    ultimately show False using clean by blast
  qed
  then show "\<forall>c \<in> set s. P c" by (simp only: dropWhile_eq_Nil_conv)
next
  assume "\<forall>c \<in> set s. P c"
  then show "\<forall>c \<in> set (dropWhile P s). P c" by (blast dest: set_dropWhileD)
qed

lemma trim_empty_iff: "(trim s = []) = (\<forall>c \<in> set s. isWhiteSpace c)"
proof -
  have "(trim s = []) = (\<forall>c \<in> set (dropWhile isWhiteSpace s). isWhiteSpace c)"
    by (simp add: trim_def dropWhile_eq_Nil_conv)
  also have "\<dots> = (\<forall>c \<in> set s. isWhiteSpace c)"
    by (rule dropWhile_clean_iff)
  finally show ?thesis .
qed

lemma semicolon_no_word: "\<not> isWordChar 0x3B"
  by (simp add: isWordChar_def)

lemma matchDataImage_iff:
  "(matchDataImage img = Some (g, d)) =
     (\<exists>w. w \<noteq> [] \<and> (\<forall>c \<in> set w. isWordChar c)
        \<and> img = ascii ''data:image/'' @ w @ ascii '';base64,'' @ d
        \<and> g = ascii ''image/'' @ w)"
proof
  assume m: "matchDataImage img = Some (g, d)"
  then obtain r where r: "img = ascii ''data:image/'' @ r"
    by (auto simp: matchDataImage_def dropPrefix_iff split: option.splits if_splits)
  then have pre: "dropPrefix (ascii ''data:image/'') img = Some r" by (simp add: dropPrefix_iff)
  let ?w = "takeWhile isWordChar r"
  from m pre have w: "?w \<noteq> []"
    and rest: "dropWhile isWordChar r = ascii '';base64,'' @ d"
    and g: "g = ascii ''image/'' @ ?w"
    by (auto simp: matchDataImage_def dropPrefix_iff split: option.splits if_splits)
  have "r = ?w @ dropWhile isWordChar r" by simp
  with rest have "r = ?w @ ascii '';base64,'' @ d" by simp
  with r have "img = ascii ''data:image/'' @ ?w @ ascii '';base64,'' @ d" by simp
  moreover have "\<forall>c \<in> set ?w. isWordChar c" by (auto dest: set_takeWhileD)
  ultimately show "\<exists>w. w \<noteq> [] \<and> (\<forall>c \<in> set w. isWordChar c)
        \<and> img = ascii ''data:image/'' @ w @ ascii '';base64,'' @ d
        \<and> g = ascii ''image/'' @ w"
    using w g by blast
next
  assume "\<exists>w. w \<noteq> [] \<and> (\<forall>c \<in> set w. isWordChar c)
        \<and> img = ascii ''data:image/'' @ w @ ascii '';base64,'' @ d
        \<and> g = ascii ''image/'' @ w"
  then obtain w where w: "w \<noteq> []" "\<forall>c \<in> set w. isWordChar c"
    and img: "img = ascii ''data:image/'' @ w @ ascii '';base64,'' @ d"
    and g: "g = ascii ''image/'' @ w"
    by blast
  have semi: "ascii '';base64,'' @ d = 0x3B # (ascii ''base64,'' @ d)"
    by (simp add: ascii_def)
  have pre: "dropPrefix (ascii ''data:image/'') img = Some (w @ ascii '';base64,'' @ d)"
    using img by (simp add: dropPrefix_iff)
  have tw: "takeWhile isWordChar (w @ ascii '';base64,'' @ d) = w"
    using w(2) by (simp add: semi takeWhile_append2 semicolon_no_word)
  have dw: "dropWhile isWordChar (w @ ascii '';base64,'' @ d) = ascii '';base64,'' @ d"
    using w(2) by (simp add: semi dropWhile_append2 semicolon_no_word)
  have post: "dropPrefix (ascii '';base64,'') (ascii '';base64,'' @ d) = Some d"
    by (simp add: dropPrefix_iff)
  show "matchDataImage img = Some (g, d)"
    unfolding matchDataImage_def pre by (simp add: tw dw post w(1) g)
qed

lemma filter_without:
  "\<not> P x \<Longrightarrow> filter P (removeAll x xs) = filter P xs"
  by (induction xs) auto

lemma matchDataImage_needs_data:
  assumes "\<not> startsWith img (ascii ''data:'')"
  shows "matchDataImage img = None"
proof -
  have split: "ascii ''data:image/'' = ascii ''data:'' @ ascii ''image/''"
    by (simp add: ascii_def)
  have "\<not> startsWith img (ascii ''data:image/'')"
  proof
    assume "startsWith img (ascii ''data:image/'')"
    then obtain r where "img = ascii ''data:image/'' @ r" by (auto simp: startsWith_iff)
    then have "img = ascii ''data:'' @ (ascii ''image/'' @ r)" by (simp add: split)
    then have "startsWith img (ascii ''data:'')" unfolding startsWith_iff by blast
    with assms show False by simp
  qed
  then show ?thesis by (simp add: matchDataImage_def dropPrefix_def)
qed

lemma inlineData_without_data:
  "\<not> startsWith img (ascii ''data:'') \<Longrightarrow> inlineData img = InlineData (ascii ''image/jpeg'') img"
  by (simp add: inlineData_def matchDataImage_needs_data)

section \<open>Facts about the request\<close>

lemma recentHistory_drop:
  "slice_from (- int MAX_HISTORY_MESSAGES) history = drop (length history - 10) history"
proof -
  have "nat (max (int (length history) - 10) 0) = length history - 10" by linarith
  then show ?thesis by (simp add: slice_from_def MAX_HISTORY_MESSAGES_def Let_def)
qed

lemma push_loop:
  "foldl (\<lambda>ps img. if P img then ps @ [f img] else ps) acc imgs = acc @ map f (filter P imgs)"
  by (induction imgs arbitrary: acc) simp_all

lemma currentParts_eq:
  "currentParts newMessage images = TextPart newMessage # map inlineData images"
  using push_loop [of "\<lambda>_. True" inlineData "[TextPart newMessage]" images]
  by (simp add: currentParts_def)

lemma historyContent_role: "role (historyContent w i msg) = msg_role msg"
  by (simp add: historyContent_def)

lemma historyContent_parts:
  "parts (historyContent w i msg) =
     TextPart (msg_text msg) #
       (if i + 2 < length w then []
        else map inlineData (filter (\<lambda>img. startsWith img (ascii ''data:'')) (imagesOf msg)))"
proof (cases "msg_images msg")
  case None
  then show ?thesis by (simp add: historyContent_def imagesOf_def)
next
  case (Some imgs)
  have recent: "(int (length w) - 2 \<le> int i) = (\<not> i + 2 < length w)" by linarith
  show ?thesis
  proof (cases "imgs = []")
    case True
    with Some show ?thesis by (simp add: historyContent_def imagesOf_def)
  next
    case False
    with Some recent show ?thesis
      by (simp add: historyContent_def imagesOf_def push_loop)
  qed
qed

lemma request_contents:
  "contents (request history newMessage images_arg loc) =
     map (\<lambda>(index, msg). historyContent (drop (length history - 10) history) index msg)
       (enumerate 0 (drop (length history - 10) history))
     @ [\<lparr>role = User,
         parts = TextPart newMessage #
           map inlineData (case images_arg of None \<Rightarrow> [] | Some imgs \<Rightarrow> imgs)\<rparr>]"
  by (simp add: request_def recentHistory_drop currentParts_eq Let_def)

lemma request_history_nth:
  assumes "i < length (drop (length history - 10) history)"
  shows "contents (request history newMessage images_arg loc) ! i =
     historyContent (drop (length history - 10) history) i (drop (length history - 10) history ! i)"
  using assms by (simp add: request_contents nth_append nth_enumerate_eq)

lemma chatWithDoctor_calls:
  "getClient env = Inr ai \<Longrightarrow>
   fst (chatWithDoctor env history newMessage images_arg loc) =
     [request history newMessage images_arg loc]"
  by (simp add: chatWithDoctor_def Let_def)

lemma handleSendMessage_accepted:
  assumes "\<not> rejects s"
  shows "handleSendMessage env now later s =
    \<lparr>calls = fst (chatWithDoctor env (messages s) (inputText s) (msg_images (userMsg now s)) (location s)),
     pending = Some (s\<lparr>messages := messages s @ [userMsg now s], inputText := [],
                        attachedImages := [], status := THINKING\<rparr>),
     settled = s\<lparr>messages := messages s @ [userMsg now s,
                   (case snd (chatWithDoctor env (messages s) (inputText s) (msg_images (userMsg now s)) (location s)) of
                      Inl error \<Rightarrow> errorMsg later
                    | Inr response \<Rightarrow> botMsg later response)],
                 inputText := [], attachedImages := [], status := IDLE\<rparr>\<rparr>"
  using assms
  by (simp add: handleSendMessage_def Let_def userMsg_def split: prod.splits sum.splits)

lemma imagesOf_userMsg:
  "(case msg_images (userMsg now s) of None \<Rightarrow> [] | Some imgs \<Rightarrow> imgs) = attachedImages s"
  by (simp add: userMsg_def)

lemma getClient_cases:
  "getClient env = Inl (Error (ascii ''API Key not found'')) \<or> (\<exists>ai. ai \<noteq> [] \<and> API_KEY env = Some ai \<and> getClient env = Inr ai)"
  by (simp add: getClient_def split: option.splits)

lemma chatWithDoctor_no_client:
  "getClient env = Inl e \<Longrightarrow> chatWithDoctor env history newMessage images_arg loc = ([], Inl e)"
  by (simp add: chatWithDoctor_def)

lemma chatWithDoctor_throw:
  "getClient env = Inr ai \<Longrightarrow>
   generateContent env ai (request history newMessage images_arg loc) = Inl e \<Longrightarrow>
   chatWithDoctor env history newMessage images_arg loc =
     ([request history newMessage images_arg loc], Inl (Error CHAT_ERROR_TEXT))"
  by (simp add: chatWithDoctor_def Let_def)

lemma chatWithDoctor_return:
  "getClient env = Inr ai \<Longrightarrow>
   generateContent env ai (request history newMessage images_arg loc) = Inr response \<Longrightarrow>
   chatWithDoctor env history newMessage images_arg loc =
     ([request history newMessage images_arg loc], Inr (chatResult response))"
  by (simp add: chatWithDoctor_def Let_def)

section \<open>Facts about the sample sessions\<close>

lemma accepts_eleven: "\<not> rejects elevenSession"
  by (simp add: rejects_def elevenSession_def trim_def isWhiteSpace_def ascii_def
        isLimitReached_def userMessageCount_def MAX_TURNS_def
        sampleUser_def sampleModel_def welcomeMessage_def)

lemma key_sampleEnv: "getClient sampleEnv = Inr (ascii ''key'')"
  by (simp add: getClient_def sampleEnv_def ascii_def)

lemma inlineData_png: "inlineData pngImage = InlineData (ascii ''image/png'') (ascii ''iVBORw0KGgo='')"
  by (simp add: inlineData_def matchDataImage_def dropPrefix_def pngImage_def ascii_def
        isWordChar_def)

lemma inlineData_link: "inlineData linkImage = InlineData (ascii ''image/jpeg'') linkImage"
  by (simp add: inlineData_def matchDataImage_def dropPrefix_def linkImage_def ascii_def)

lemma data_png: "startsWith pngImage (ascii ''data:'')"
  by (simp add: pngImage_def ascii_def)

lemma data_link: "\<not> startsWith linkImage (ascii ''data:'')"
  by (simp add: linkImage_def ascii_def)

lemma window_imageHistory: "slice_from (- int MAX_HISTORY_MESSAGES) imageHistory = imageHistory"
  by (simp add: recentHistory_drop imageHistory_def)

lemma accepts_imageSession: "\<not> rejects imageSession"
  by (simp add: rejects_def imageSession_def imageHistory_def
        isLimitReached_def userMessageCount_def MAX_TURNS_def
        sampleUser_def welcomeMessage_def)

lemma key_offlineEnv: "getClient offlineEnv = Inr (ascii ''key'')"
  by (simp add: getClient_def offlineEnv_def ascii_def)


lemma key_groundedEnv: "getClient groundedEnv = Inr (ascii ''key'')"
  by (simp add: getClient_def groundedEnv_def ascii_def)

lemma key_noKeyEnv: "getClient noKeyEnv = Inl (Error (ascii ''API Key not found''))"
  by (simp add: getClient_def noKeyEnv_def)

section \<open>The turn limit\<close>

text \<open>
  C1. For every session log, the turn count is the number of positions of the log that hold
  a message with role user. The greeting at the head of a log adds nothing to the count,
  nor does any message with role model appended to it. The limit is reached exactly when
  that number is at least 10.
\<close>

theorem turn_count_and_limit:
  "userMessageCount msgs = card {i. i < length msgs \<and> msg_role (msgs ! i) = User}
   \<and> userMessageCount (welcomeMessage # msgs) = userMessageCount msgs
   \<and> userMessageCount (msgs @ [m\<lparr>msg_role := Model\<rparr>]) = userMessageCount msgs
   \<and> isLimitReached msgs = (10 \<le> card {i. i < length msgs \<and> msg_role (msgs ! i) = User})"
proof -
  have count: "userMessageCount msgs = card {i. i < length msgs \<and> msg_role (msgs ! i) = User}"
    unfolding userMessageCount_def by (rule length_filter_conv_card)
  have greeting: "userMessageCount (welcomeMessage # msgs) = userMessageCount msgs"
    by (simp add: userMessageCount_def welcomeMessage_def)
  have model: "userMessageCount (msgs @ [m\<lparr>msg_role := Model\<rparr>]) = userMessageCount msgs"
    by (simp add: userMessageCount_def)
  have limit: "isLimitReached msgs = (10 \<le> userMessageCount msgs)"
    by (simp add: isLimitReached_def MAX_TURNS_def)
  from count greeting model limit show ?thesis by simp
qed

text \<open>
  C2. In every session state whose log holds at least 10 messages with role user, a run of
  \<open>handleSendMessage\<close> does nothing, whatever text and images are staged: no request is
  sent to the model, no state is committed before an await, and the state at the end is the
  state at the start, so the log and its length are the same and the status is what it
  was: a session that was not busy is not busy afterwards.
\<close>

theorem limit_reached_submit_noop:
  assumes "10 \<le> length (filter (\<lambda>m. msg_role m = User) (messages s))"
  shows "handleSendMessage env now later s = \<lparr>calls = [], pending = None, settled = s\<rparr>
    \<and> messages (settled (handleSendMessage env now later s)) = messages s
    \<and> length (messages (settled (handleSendMessage env now later s))) = length (messages s)
    \<and> calls (handleSendMessage env now later s) = []
    \<and> pending (handleSendMessage env now later s) = None
    \<and> status (settled (handleSendMessage env now later s)) = status s
    \<and> (status s \<noteq> THINKING \<longrightarrow> status (settled (handleSendMessage env now later s)) \<noteq> THINKING)"
proof -
  from assms have "isLimitReached (messages s)"
    by (simp add: isLimitReached_def userMessageCount_def MAX_TURNS_def)
  then have "rejects s" by (simp add: rejects_def)
  then have "handleSendMessage env now later s = \<lparr>calls = [], pending = None, settled = s\<rparr>"
    by (simp add: handleSendMessage_def)
  then show ?thesis by simp
qed

theorem limit_reached_submit_noop_witness:
  "10 \<le> length (filter (\<lambda>m. msg_role m = User) (messages fullSession))
   \<and> handleSendMessage sampleEnv 5 6 fullSession = \<lparr>calls = [], pending = None, settled = fullSession\<rparr>
   \<and> status (settled (handleSendMessage sampleEnv 5 6 fullSession)) = IDLE"
proof -
  have full: "10 \<le> length (filter (\<lambda>m. msg_role m = User) (messages fullSession))"
    by (simp add: fullSession_def sampleUser_def sampleModel_def welcomeMessage_def)
  have idle: "status fullSession = IDLE" by (simp add: fullSession_def)
  from limit_reached_submit_noop [OF full, of sampleEnv 5 6] full idle show ?thesis by simp
qed

section \<open>The context window\<close>

text \<open>
  C3. For every accepted submission with a credential set, one request is sent. Its content
  blocks before the last one are as many as the smaller of 10 and the length of the log
  of the render (the log before the user's message is appended), and they carry, in order,
  the role and the text of the last that many messages of this log. A log of 11 messages
  gives 10 such blocks.
\<close>

theorem history_window:
  assumes accepted: "\<not> rejects s"
    and key: "getClient env = Inr ai"
  shows "calls (handleSendMessage env now later s) =
           [request (messages s) (inputText s) (msg_images (userMsg now s)) (location s)]
    \<and> length (butlast (contents (request (messages s) (inputText s) (msg_images (userMsg now s)) (location s))))
        = min (length (messages s)) 10
    \<and> map (\<lambda>c. (role c, hd (parts c)))
          (butlast (contents (request (messages s) (inputText s) (msg_images (userMsg now s)) (location s))))
        = map (\<lambda>m. (msg_role m, TextPart (msg_text m)))
            (drop (length (messages s) - min (length (messages s)) 10) (messages s))
    \<and> (length (messages s) = 11 \<longrightarrow>
         length (butlast (contents (request (messages s) (inputText s) (msg_images (userMsg now s)) (location s)))) = 10)"
proof -
  let ?h = "messages s"
  let ?w = "drop (length ?h - 10) ?h"
  let ?req = "request ?h (inputText s) (msg_images (userMsg now s)) (location s)"
  have sent: "calls (handleSendMessage env now later s) = [?req]"
    using accepted key by (simp add: handleSendMessage_accepted chatWithDoctor_calls)
  have hist: "butlast (contents ?req) =
      map (\<lambda>(index, msg). historyContent ?w index msg) (enumerate 0 ?w)"
    by (simp add: request_contents)
  have len: "length (butlast (contents ?req)) = min (length ?h) 10"
    unfolding hist by simp
  have same: "length ?h - min (length ?h) 10 = length ?h - 10" by simp
  have blocks: "map (\<lambda>c. (role c, hd (parts c))) (butlast (contents ?req))
      = map (\<lambda>m. (msg_role m, TextPart (msg_text m))) ?w"
    unfolding hist
    by (rule nth_equalityI)
       (simp_all add: nth_enumerate_eq historyContent_role historyContent_parts)
  from sent len blocks same show ?thesis by simp
qed

theorem history_window_witness:
  "\<not> rejects elevenSession \<and> getClient sampleEnv = Inr (ascii ''key'')
   \<and> length (messages elevenSession) = 11
   \<and> length (butlast (contents (request (messages elevenSession) (inputText elevenSession)
         (msg_images (userMsg 5 elevenSession)) (location elevenSession)))) = 10
   \<and> map (\<lambda>c. (role c, hd (parts c))) (butlast (contents (request (messages elevenSession) (inputText elevenSession)
         (msg_images (userMsg 5 elevenSession)) (location elevenSession))))
      = map (\<lambda>m. (msg_role m, TextPart (msg_text m))) (tl (messages elevenSession))"
proof -
  have len: "length (messages elevenSession) = 11" by (simp add: elevenSession_def)
  have tl: "drop (length (messages elevenSession) - min (length (messages elevenSession)) 10) (messages elevenSession)
     = tl (messages elevenSession)"
    by (simp add: elevenSession_def)
  from history_window [OF accepts_eleven key_sampleEnv, of 5 6] len tl accepts_eleven key_sampleEnv
  show ?thesis by simp
qed

text \<open>
  C4. With a credential set, the request sent holds, for every position of the window of
  the last 10 messages, a block whose parts are the text of the message at that position,
  followed by inline image blocks only when the position is one of the last two of the
  window (then one block for each image of the message that starts with \<^verbatim>\<open>data:\<close>). At
  every earlier position the block is the text alone, whatever images the message carries.
\<close>

theorem images_only_in_last_two:
  assumes key: "getClient env = Inr ai"
    and window: "w = slice_from (- int MAX_HISTORY_MESSAGES) history"
    and pos: "i < length w"
  shows "fst (chatWithDoctor env history newMessage images_arg loc) =
           [request history newMessage images_arg loc]
    \<and> length w \<le> 10
    \<and> parts (contents (request history newMessage images_arg loc) ! i) =
        TextPart (msg_text (w ! i)) #
          (if i + 2 < length w then []
           else map inlineData (filter (\<lambda>img. startsWith img (ascii ''data:'')) (imagesOf (w ! i))))
    \<and> (i + 2 < length w \<longrightarrow>
         parts (contents (request history newMessage images_arg loc) ! i) = [TextPart (msg_text (w ! i))])"
proof -
  have w: "w = drop (length history - 10) history"
    using window by (simp add: recentHistory_drop)
  have sent: "fst (chatWithDoctor env history newMessage images_arg loc) =
           [request history newMessage images_arg loc]"
    using key by (rule chatWithDoctor_calls)
  have short: "length w \<le> 10" unfolding w by simp
  have block: "contents (request history newMessage images_arg loc) ! i = historyContent w i (w ! i)"
    using pos unfolding w by (rule request_history_nth)
  from sent short block show ?thesis by (simp add: historyContent_parts)
qed

theorem images_only_in_last_two_witness:
  "getClient sampleEnv = Inr (ascii ''key'')
   \<and> slice_from (- int MAX_HISTORY_MESSAGES) imageHistory = imageHistory
   \<and> 0 < length imageHistory \<and> 0 + 2 < length imageHistory
   \<and> msg_images (imageHistory ! 0) = Some [pngImage]
   \<and> parts (contents (request imageHistory (ascii ''q4'') None None) ! 0) = [TextPart (ascii ''q1'')]"
proof -
  have pos: "0 < length imageHistory" and early: "0 + 2 < length imageHistory"
    by (simp_all add: imageHistory_def)
  have first: "imageHistory ! 0 = sampleUser (ascii ''q1'') (Some [pngImage])"
    by (simp add: imageHistory_def)
  from images_only_in_last_two [OF key_sampleEnv window_imageHistory [symmetric] pos,
      of "ascii ''q4''" None None] early
  have "parts (contents (request imageHistory (ascii ''q4'') None None) ! 0) =
      [TextPart (msg_text (imageHistory ! 0))]"
    by blast
  with key_sampleEnv window_imageHistory pos early first show ?thesis
    by (simp add: sampleUser_def)
qed

text \<open>
  C5. A submission with a staged image or with text that is not all white space, made while
  no request is in flight and the turn limit is not reached, is accepted: so one with
  images and empty text is. With a credential set, the last content block of the request
  sent has role user and holds the text followed by one inline block for each staged image,
  in order, none left out.
\<close>

theorem new_images_always_sent:
  assumes idle: "status s \<noteq> THINKING"
    and turns: "\<not> isLimitReached (messages s)"
    and input: "attachedImages s \<noteq> [] \<or> trim (inputText s) \<noteq> []"
    and key: "getClient env = Inr ai"
  shows "\<not> rejects s
    \<and> calls (handleSendMessage env now later s) =
         [request (messages s) (inputText s) (msg_images (userMsg now s)) (location s)]
    \<and> last (contents (request (messages s) (inputText s) (msg_images (userMsg now s)) (location s)))
        = \<lparr>role = User, parts = TextPart (inputText s) # map inlineData (attachedImages s)\<rparr>
    \<and> length (parts (last (contents
          (request (messages s) (inputText s) (msg_images (userMsg now s)) (location s)))))
        = 1 + length (attachedImages s)"
proof -
  have accepted: "\<not> rejects s"
    using idle turns input by (auto simp: rejects_def)
  have sent: "calls (handleSendMessage env now later s) =
         [request (messages s) (inputText s) (msg_images (userMsg now s)) (location s)]"
    using accepted key by (simp add: handleSendMessage_accepted chatWithDoctor_calls)
  have final: "last (contents (request (messages s) (inputText s) (msg_images (userMsg now s)) (location s)))
        = \<lparr>role = User, parts = TextPart (inputText s) # map inlineData (attachedImages s)\<rparr>"
    by (simp add: request_contents imagesOf_userMsg)
  from accepted sent final show ?thesis by simp
qed

theorem new_images_always_sent_witness:
  "status imageSession \<noteq> THINKING \<and> \<not> isLimitReached (messages imageSession)
   \<and> attachedImages imageSession = [pngImage, linkImage] \<and> inputText imageSession = []
   \<and> getClient sampleEnv = Inr (ascii ''key'')
   \<and> \<not> rejects imageSession
   \<and> parts (last (contents (hd (calls (handleSendMessage sampleEnv 5 6 imageSession))))) =
       [TextPart [], InlineData (ascii ''image/png'') (ascii ''iVBORw0KGgo=''),
        InlineData (ascii ''image/jpeg'') linkImage]"
proof -
  have idle: "status imageSession \<noteq> THINKING" by (simp add: imageSession_def)
  have turns: "\<not> isLimitReached (messages imageSession)"
    using accepts_imageSession by (simp add: rejects_def)
  have staged: "attachedImages imageSession = [pngImage, linkImage]" "inputText imageSession = []"
    by (simp_all add: imageSession_def)
  have input: "attachedImages imageSession \<noteq> [] \<or> trim (inputText imageSession) \<noteq> []"
    by (simp add: staged)
  from new_images_always_sent [OF idle turns input key_sampleEnv, of 5 6]
    idle turns staged key_sampleEnv
  show ?thesis by (simp add: inlineData_png inlineData_link)
qed

text \<open>
  C6. With a credential set, an image that does not start with \<^verbatim>\<open>data:\<close> gets no inline
  block on a history message: the block at every position of the window is the text
  followed, at the last two positions, by the inline blocks of the images that start with
  \<^verbatim>\<open>data:\<close>, the same as if that image were removed from the message. The images of the
  new turn are forwarded without this test: the last block holds the text and one inline
  block for each of them, and an image that does not start with \<^verbatim>\<open>data:\<close> is sent
  there with the type \<^verbatim>\<open>image/jpeg\<close> and the string itself as data.
\<close>

theorem data_guard_on_history_images_only:
  assumes key: "getClient env = Inr ai"
    and window: "w = slice_from (- int MAX_HISTORY_MESSAGES) history"
    and pos: "i < length w"
    and plain: "\<not> startsWith img (ascii ''data:'')"
  shows "fst (chatWithDoctor env history newMessage images_arg loc) =
           [request history newMessage images_arg loc]
    \<and> parts (contents (request history newMessage images_arg loc) ! i) =
        TextPart (msg_text (w ! i)) #
          (if i + 2 < length w then []
           else map inlineData
                  (filter (\<lambda>x. startsWith x (ascii ''data:'')) (removeAll img (imagesOf (w ! i)))))
    \<and> parts (last (contents (request history newMessage images_arg loc))) =
        TextPart newMessage # map inlineData (case images_arg of None \<Rightarrow> [] | Some imgs \<Rightarrow> imgs)
    \<and> length (parts (last (contents (request history newMessage images_arg loc)))) =
        1 + length (case images_arg of None \<Rightarrow> [] | Some imgs \<Rightarrow> imgs)
    \<and> inlineData img = InlineData (ascii ''image/jpeg'') img"
proof -
  have w: "w = drop (length history - 10) history"
    using window by (simp add: recentHistory_drop)
  have sent: "fst (chatWithDoctor env history newMessage images_arg loc) =
           [request history newMessage images_arg loc]"
    using key by (rule chatWithDoctor_calls)
  have block: "contents (request history newMessage images_arg loc) ! i = historyContent w i (w ! i)"
    using pos unfolding w by (rule request_history_nth)
  have skipped: "filter (\<lambda>x. startsWith x (ascii ''data:'')) (removeAll img (imagesOf (w ! i)))
      = filter (\<lambda>x. startsWith x (ascii ''data:'')) (imagesOf (w ! i))"
    using plain by (rule filter_without)
  have past: "parts (contents (request history newMessage images_arg loc) ! i) =
        TextPart (msg_text (w ! i)) #
          (if i + 2 < length w then []
           else map inlineData
                  (filter (\<lambda>x. startsWith x (ascii ''data:'')) (removeAll img (imagesOf (w ! i)))))"
    unfolding block skipped by (rule historyContent_parts)
  have new: "parts (last (contents (request history newMessage images_arg loc))) =
        TextPart newMessage # map inlineData (case images_arg of None \<Rightarrow> [] | Some imgs \<Rightarrow> imgs)"
    by (simp add: request_contents)
  have count: "length (parts (last (contents (request history newMessage images_arg loc)))) =
        1 + length (case images_arg of None \<Rightarrow> [] | Some imgs \<Rightarrow> imgs)"
    unfolding new by simp
  have sent_as: "inlineData img = InlineData (ascii ''image/jpeg'') img"
    using plain by (rule inlineData_without_data)
  from sent past new count sent_as show ?thesis by blast
qed

theorem data_guard_on_history_images_only_witness:
  "getClient sampleEnv = Inr (ascii ''key'')
   \<and> slice_from (- int MAX_HISTORY_MESSAGES) imageHistory = imageHistory
   \<and> 1 < length imageHistory
   \<and> \<not> startsWith linkImage (ascii ''data:'')
   \<and> imagesOf (imageHistory ! 1) = [pngImage, linkImage]
   \<and> parts (contents (request imageHistory [] (Some [pngImage, linkImage]) None) ! 1) =
       [TextPart (ascii ''q2''), InlineData (ascii ''image/png'') (ascii ''iVBORw0KGgo='')]
   \<and> parts (last (contents (request imageHistory [] (Some [pngImage, linkImage]) None))) =
       [TextPart [], InlineData (ascii ''image/png'') (ascii ''iVBORw0KGgo=''),
        InlineData (ascii ''image/jpeg'') linkImage]"
proof -
  have pos: "1 < length imageHistory" by (simp add: imageHistory_def)
  have second: "imageHistory ! 1 = sampleUser (ascii ''q2'') (Some [pngImage, linkImage])"
    by (simp add: imageHistory_def)
  have imgs: "imagesOf (imageHistory ! 1) = [pngImage, linkImage]"
    unfolding second by (simp add: imagesOf_def sampleUser_def)
  have text2: "msg_text (imageHistory ! 1) = ascii ''q2''"
    unfolding second by (simp add: sampleUser_def)
  have differ: "pngImage \<noteq> linkImage" using data_png data_link by auto
  have kept: "filter (\<lambda>x. startsWith x (ascii ''data:'')) (removeAll linkImage [pngImage, linkImage])
      = [pngImage]"
    using differ data_png by simp
  have recent: "\<not> 1 + 2 < length imageHistory" by (simp add: imageHistory_def)
  note inst = data_guard_on_history_images_only
    [OF key_sampleEnv window_imageHistory [symmetric] pos data_link,
     of "[]" "Some [pngImage, linkImage]" None]
  from inst have "parts (contents (request imageHistory [] (Some [pngImage, linkImage]) None) ! 1) =
        TextPart (msg_text (imageHistory ! 1)) #
          (if 1 + 2 < length imageHistory then []
           else map inlineData
                  (filter (\<lambda>x. startsWith x (ascii ''data:''))
                     (removeAll linkImage (imagesOf (imageHistory ! 1)))))"
    by blast
  then have past: "parts (contents (request imageHistory [] (Some [pngImage, linkImage]) None) ! 1) =
       [TextPart (ascii ''q2''), InlineData (ascii ''image/png'') (ascii ''iVBORw0KGgo='')]"
    unfolding imgs kept using recent text2 by (simp add: inlineData_png)
  from inst have "parts (last (contents (request imageHistory [] (Some [pngImage, linkImage]) None))) =
        TextPart [] # map inlineData (case Some [pngImage, linkImage] of None \<Rightarrow> [] | Some imgs \<Rightarrow> imgs)"
    by blast
  then have new: "parts (last (contents (request imageHistory [] (Some [pngImage, linkImage]) None))) =
       [TextPart [], InlineData (ascii ''image/png'') (ascii ''iVBORw0KGgo=''),
        InlineData (ascii ''image/jpeg'') linkImage]"
    by (simp add: inlineData_png inlineData_link)
  from key_sampleEnv window_imageHistory pos data_link imgs past new show ?thesis by blast
qed

text \<open>
  The test is not made on the images of the new turn: called with the two images
  \<open>pngImage\<close> and \<open>linkImage\<close>, where \<open>linkImage\<close> does not start with \<^verbatim>\<open>data:\<close>,
  \<open>chatWithDoctor\<close> sends a request whose last block holds an inline block for
  \<open>linkImage\<close>.
\<close>

theorem new_image_without_data_prefix_counterexample:
  "\<not> startsWith linkImage (ascii ''data:'')
   \<and> fst (chatWithDoctor sampleEnv imageHistory [] (Some [pngImage, linkImage]) None) =
       [request imageHistory [] (Some [pngImage, linkImage]) None]
   \<and> parts (last (contents (request imageHistory [] (Some [pngImage, linkImage]) None))) =
       [TextPart [], InlineData (ascii ''image/png'') (ascii ''iVBORw0KGgo=''),
        InlineData (ascii ''image/jpeg'') linkImage]
   \<and> inlineData linkImage = InlineData (ascii ''image/jpeg'') linkImage"
proof -
  have sent: "fst (chatWithDoctor sampleEnv imageHistory [] (Some [pngImage, linkImage]) None) =
       [request imageHistory [] (Some [pngImage, linkImage]) None]"
    by (rule chatWithDoctor_calls [OF key_sampleEnv])
  have final: "parts (last (contents (request imageHistory [] (Some [pngImage, linkImage]) None))) =
       [TextPart [], InlineData (ascii ''image/png'') (ascii ''iVBORw0KGgo=''),
        InlineData (ascii ''image/jpeg'') linkImage]"
    by (simp add: request_contents inlineData_png inlineData_link)
  from data_link sent final inlineData_link show ?thesis by blast
qed

section \<open>Failures and empty responses\<close>

text \<open>
  C7. When a submission is accepted and the model call throws, because \<open>getClient\<close> finds
  no credential or because \<open>generateContent\<close> throws on the request, the log at the end is
  the log at the start followed by the user's message and one message with role model and
  the fixed fallback text. At most one request was sent, the count of user turns is the
  count after the user's message was appended (one more than at the start), the session
  was busy before the await and is idle at the end.
\<close>

theorem model_call_failure_fallback:
  assumes accepted: "\<not> rejects s"
    and throws: "getClient env = Inl e \<or>
      (\<exists>ai. getClient env = Inr ai \<and>
         generateContent env ai
           (request (messages s) (inputText s) (msg_images (userMsg now s)) (location s)) = Inl e)"
  shows "messages (settled (handleSendMessage env now later s)) =
           messages s @ [userMsg now s, errorMsg later]
    \<and> msg_role (userMsg now s) = User \<and> msg_text (userMsg now s) = inputText s
    \<and> msg_role (errorMsg later) = Model \<and> msg_text (errorMsg later) = FALLBACK_TEXT
    \<and> msg_text (last (messages (settled (handleSendMessage env now later s)))) =
        [0x7533, 0x3057, 0x8A33, 0x3042, 0x308A, 0x307E, 0x305B, 0x3093, 0x3002, 0x901A, 0x4FE1,
         0x30A8, 0x30E9, 0x30FC, 0x304C, 0x767A, 0x751F, 0x3057, 0x307E, 0x3057, 0x305F, 0x3002,
         0x3082, 0x3046, 0x4E00, 0x5EA6, 0x304A, 0x8A66, 0x3057, 0x304F, 0x3060, 0x3055, 0x3044,
         0x3002]
    \<and> length (calls (handleSendMessage env now later s)) \<le> 1
    \<and> userMessageCount (messages (settled (handleSendMessage env now later s))) =
        userMessageCount (messages s @ [userMsg now s])
    \<and> userMessageCount (messages (settled (handleSendMessage env now later s))) =
        userMessageCount (messages s) + 1
    \<and> map_option status (pending (handleSendMessage env now later s)) = Some THINKING
    \<and> status (settled (handleSendMessage env now later s)) = IDLE"
proof -
  let ?call = "chatWithDoctor env (messages s) (inputText s) (msg_images (userMsg now s)) (location s)"
  from throws have result: "length (fst ?call) \<le> 1 \<and> (\<exists>e'. snd ?call = Inl e')"
  proof
    assume "getClient env = Inl e"
    then show ?thesis by (simp add: chatWithDoctor_no_client)
  next
    assume "\<exists>ai. getClient env = Inr ai \<and>
         generateContent env ai
           (request (messages s) (inputText s) (msg_images (userMsg now s)) (location s)) = Inl e"
    then show ?thesis by (auto simp: chatWithDoctor_throw)
  qed
  then obtain e' where thrown: "snd ?call = Inl e'" by blast
  have out: "messages (settled (handleSendMessage env now later s)) =
           messages s @ [userMsg now s, errorMsg later]"
    using accepted thrown by (simp add: handleSendMessage_accepted)
  have sent: "length (calls (handleSendMessage env now later s)) \<le> 1"
    using accepted result by (simp add: handleSendMessage_accepted)
  have busy: "map_option status (pending (handleSendMessage env now later s)) = Some THINKING"
    using accepted by (simp add: handleSendMessage_accepted)
  have idle: "status (settled (handleSendMessage env now later s)) = IDLE"
    using accepted by (simp add: handleSendMessage_accepted)
  have roles: "msg_role (userMsg now s) = User \<and> msg_text (userMsg now s) = inputText s
    \<and> msg_role (errorMsg later) = Model \<and> msg_text (errorMsg later) = FALLBACK_TEXT"
    by (simp add: userMsg_def errorMsg_def)
  have count: "userMessageCount (messages s @ [userMsg now s, errorMsg later]) =
      userMessageCount (messages s @ [userMsg now s])"
    by (simp add: userMessageCount_def errorMsg_def)
  have count1: "userMessageCount (messages s @ [userMsg now s]) = userMessageCount (messages s) + 1"
    by (simp add: userMessageCount_def userMsg_def)
  have fixed: "msg_text (last (messages (settled (handleSendMessage env now later s)))) =
        [0x7533, 0x3057, 0x8A33, 0x3042, 0x308A, 0x307E, 0x305B, 0x3093, 0x3002, 0x901A, 0x4FE1,
         0x30A8, 0x30E9, 0x30FC, 0x304C, 0x767A, 0x751F, 0x3057, 0x307E, 0x3057, 0x305F, 0x3002,
         0x3082, 0x3046, 0x4E00, 0x5EA6, 0x304A, 0x8A66, 0x3057, 0x304F, 0x3060, 0x3055, 0x3044,
         0x3002]"
    unfolding out by (simp add: errorMsg_def FALLBACK_TEXT_def)
  have shape: "messages (settled (handleSendMessage env now later s)) =
           messages s @ [userMsg now s, errorMsg later]
    \<and> userMessageCount (messages (settled (handleSendMessage env now later s))) =
        userMessageCount (messages s @ [userMsg now s])
    \<and> userMessageCount (messages (settled (handleSendMessage env now later s))) =
        userMessageCount (messages s) + 1"
    using out count count1 by simp
  from shape sent busy idle roles fixed show ?thesis by blast
qed

theorem model_call_failure_fallback_witness:
  "\<not> rejects elevenSession
   \<and> getClient noKeyEnv = Inl (Error (ascii ''API Key not found''))
   \<and> messages (settled (handleSendMessage noKeyEnv 5 6 elevenSession)) =
       messages elevenSession @ [userMsg 5 elevenSession, errorMsg 6]
   \<and> calls (handleSendMessage noKeyEnv 5 6 elevenSession) = []
   \<and> getClient offlineEnv = Inr (ascii ''key'')
   \<and> messages (settled (handleSendMessage offlineEnv 5 6 elevenSession)) =
       messages elevenSession @ [userMsg 5 elevenSession, errorMsg 6]
   \<and> length (calls (handleSendMessage offlineEnv 5 6 elevenSession)) = 1
   \<and> userMessageCount (messages (settled (handleSendMessage offlineEnv 5 6 elevenSession))) = 6
   \<and> status (settled (handleSendMessage offlineEnv 5 6 elevenSession)) = IDLE
   \<and> msg_text (last (messages (settled (handleSendMessage offlineEnv 5 6 elevenSession)))) =
        [0x7533, 0x3057, 0x8A33, 0x3042, 0x308A, 0x307E, 0x305B, 0x3093, 0x3002, 0x901A, 0x4FE1,
         0x30A8, 0x30E9, 0x30FC, 0x304C, 0x767A, 0x751F, 0x3057, 0x307E, 0x3057, 0x305F, 0x3002,
         0x3082, 0x3046, 0x4E00, 0x5EA6, 0x304A, 0x8A66, 0x3057, 0x304F, 0x3060, 0x3055, 0x3044,
         0x3002]"
proof -
  have no_key: "getClient noKeyEnv = Inl (Error (ascii ''API Key not found'')) \<or>
      (\<exists>ai. getClient noKeyEnv = Inr ai \<and>
         generateContent noKeyEnv ai
           (request (messages elevenSession) (inputText elevenSession)
              (msg_images (userMsg 5 elevenSession)) (location elevenSession))
         = Inl (Error (ascii ''API Key not found'')))"
    by (simp add: key_noKeyEnv)
  have offline: "getClient offlineEnv = Inl (Error (ascii ''Failed to fetch'')) \<or>
      (\<exists>ai. getClient offlineEnv = Inr ai \<and>
         generateContent offlineEnv ai
           (request (messages elevenSession) (inputText elevenSession)
              (msg_images (userMsg 5 elevenSession)) (location elevenSession))
         = Inl (Error (ascii ''Failed to fetch'')))"
    by (simp add: key_offlineEnv) (simp add: offlineEnv_def)
  have none: "calls (handleSendMessage noKeyEnv 5 6 elevenSession) = []"
    by (simp add: handleSendMessage_accepted [OF accepts_eleven] chatWithDoctor_no_client [OF key_noKeyEnv])
  have one: "length (calls (handleSendMessage offlineEnv 5 6 elevenSession)) = 1"
    by (simp add: handleSendMessage_accepted [OF accepts_eleven] chatWithDoctor_calls [OF key_offlineEnv])
  have turns: "userMessageCount (messages elevenSession) = 5"
    by (simp add: userMessageCount_def elevenSession_def sampleUser_def sampleModel_def
          welcomeMessage_def)
  note missing = model_call_failure_fallback [OF accepts_eleven no_key, of 6]
  note thrown = model_call_failure_fallback [OF accepts_eleven offline, of 6]
  from missing have m1: "messages (settled (handleSendMessage noKeyEnv 5 6 elevenSession)) =
       messages elevenSession @ [userMsg 5 elevenSession, errorMsg 6]"
    by blast
  from thrown have t1: "messages (settled (handleSendMessage offlineEnv 5 6 elevenSession)) =
       messages elevenSession @ [userMsg 5 elevenSession, errorMsg 6]"
    by blast
  from thrown have "userMessageCount (messages (settled (handleSendMessage offlineEnv 5 6 elevenSession)))
      = userMessageCount (messages elevenSession) + 1"
    by blast
  with turns have t2: "userMessageCount (messages (settled (handleSendMessage offlineEnv 5 6 elevenSession))) = 6"
    by simp
  from thrown have t3: "status (settled (handleSendMessage offlineEnv 5 6 elevenSession)) = IDLE"
    by blast
  from thrown have t4: "msg_text (last (messages (settled (handleSendMessage offlineEnv 5 6 elevenSession)))) =
        [0x7533, 0x3057, 0x8A33, 0x3042, 0x308A, 0x307E, 0x305B, 0x3093, 0x3002, 0x901A, 0x4FE1,
         0x30A8, 0x30E9, 0x30FC, 0x304C, 0x767A, 0x751F, 0x3057, 0x307E, 0x3057, 0x305F, 0x3002,
         0x3082, 0x3046, 0x4E00, 0x5EA6, 0x304A, 0x8A66, 0x3057, 0x304F, 0x3060, 0x3055, 0x3044,
         0x3002]"
    by blast
  from accepts_eleven key_noKeyEnv m1 none key_offlineEnv t1 one t2 t3 t4 show ?thesis
    by blast
qed



text \<open>
  C10. When a submission is accepted, a credential is set and \<open>generateContent\<close> returns a
  response with no text (absent or empty) but with grounding metadata, \<open>chatWithDoctor\<close>
  returns the empty string with that metadata, and the message appended to the log has role
  model, the empty text and that metadata.
\<close>

theorem empty_text_with_grounding:
  assumes accepted: "\<not> rejects s"
    and key: "getClient env = Inr ai"
    and returned: "generateContent env ai
        (request (messages s) (inputText s) (msg_images (userMsg now s)) (location s)) = Inr response"
    and no_text: "resp_text response = None \<or> resp_text response = Some []"
    and grounding: "firstGroundingMetadata response = Some md"
  shows "snd (chatWithDoctor env (messages s) (inputText s) (msg_images (userMsg now s)) (location s))
           = Inr \<lparr>res_text = [], res_groundingMetadata = Some md\<rparr>
    \<and> messages (settled (handleSendMessage env now later s)) =
        messages s @ [userMsg now s, botMsg later \<lparr>res_text = [], res_groundingMetadata = Some md\<rparr>]
    \<and> msg_role (last (messages (settled (handleSendMessage env now later s)))) = Model
    \<and> msg_text (last (messages (settled (handleSendMessage env now later s)))) = []
    \<and> msg_groundingMetadata (last (messages (settled (handleSendMessage env now later s)))) = Some md"
proof -
  from no_text grounding
  have "chatResult response = \<lparr>res_text = [], res_groundingMetadata = Some md\<rparr>"
    by (auto simp: chatResult_def)
  with key returned
  have call: "snd (chatWithDoctor env (messages s) (inputText s) (msg_images (userMsg now s)) (location s))
           = Inr \<lparr>res_text = [], res_groundingMetadata = Some md\<rparr>"
    by (simp add: chatWithDoctor_return)
  with accepted
  have out: "messages (settled (handleSendMessage env now later s)) =
        messages s @ [userMsg now s, botMsg later \<lparr>res_text = [], res_groundingMetadata = Some md\<rparr>]"
    by (simp add: handleSendMessage_accepted)
  from call out show ?thesis by (simp add: botMsg_def)
qed

theorem empty_text_with_grounding_witness:
  "\<not> rejects elevenSession \<and> getClient groundedEnv = Inr (ascii ''key'')
   \<and> msg_text (last (messages (settled (handleSendMessage groundedEnv 5 6 elevenSession)))) = []
   \<and> msg_groundingMetadata (last (messages (settled (handleSendMessage groundedEnv 5 6 elevenSession))))
       = Some sampleMetadata
   \<and> renderGrounding (msg_groundingMetadata
         (last (messages (settled (handleSendMessage groundedEnv 5 6 elevenSession)))))
       = Some [\<lparr>href = Some (ascii ''https://www.google.com/maps/place/clinic''),
                label = ascii ''Clinic''\<rparr>]"
proof -
  let ?response = "\<lparr>resp_text = Some [],
        candidates = Some [\<lparr>cand_groundingMetadata = Some sampleMetadata\<rparr>]\<rparr>"
  have returned: "generateContent groundedEnv (ascii ''key'')
        (request (messages elevenSession) (inputText elevenSession)
           (msg_images (userMsg 5 elevenSession)) (location elevenSession)) = Inr ?response"
    by (simp add: groundedEnv_def)
  have no_text: "resp_text ?response = None \<or> resp_text ?response = Some []" by simp
  have grounding: "firstGroundingMetadata ?response = Some sampleMetadata"
    by (simp add: firstGroundingMetadata_def)
  have links: "renderGrounding (Some sampleMetadata)
       = Some [\<lparr>href = Some (ascii ''https://www.google.com/maps/place/clinic''),
                label = ascii ''Clinic''\<rparr>]"
    by (simp add: renderGrounding_def sampleMetadata_def mapChunks_def isMapChunk_def
          mapLink_def ascii_def)
  note grounded =
    empty_text_with_grounding [OF accepts_eleven key_groundedEnv returned no_text grounding, of 6]
  from grounded
  have blank: "msg_text (last (messages (settled (handleSendMessage groundedEnv 5 6 elevenSession)))) = []"
    by blast
  from grounded
  have meta: "msg_groundingMetadata (last (messages (settled (handleSendMessage groundedEnv 5 6 elevenSession))))
       = Some sampleMetadata"
    by blast
  from accepts_eleven key_groundedEnv blank meta links show ?thesis
    by (simp only: simp_thms)
qed

section \<open>Grounding\<close>

text \<open>
  C9. Filtering the grounding chunks for map links twice gives the same sequence as
  filtering once, and the links rendered from the filtered chunks are those rendered from
  the chunks themselves.
\<close>

theorem mapChunks_idempotent:
  "mapChunks (mapChunks chunks) = mapChunks chunks
   \<and> renderGrounding (Some (md\<lparr>groundingChunks := Some (mapChunks chunks)\<rparr>))
       = renderGrounding (Some (md\<lparr>groundingChunks := Some chunks\<rparr>))"
  by (simp add: mapChunks_def renderGrounding_def)

end
